theory Spec2Isabelle
  imports Complex_Main
begin

section \<open>Tables of the database (shared/schema.ts)\<close>

text \<open>
  The server (dist/index.js) keeps four tables in Postgres that matter here: users,
  messages, otps and protected_numbers. A table is a list of rows in insertion order;
  a row is a record with the columns of the \<^verbatim>\<open>pgTable\<close> declaration. Integer
  columns are \<^typ>\<open>int\<close> (Postgres rejects a value outside 32 bits with an error
  instead of wrapping; that error is outside this model). A timestamp is the number of
  milliseconds since the epoch, and every \<^verbatim>\<open>new Date()\<close> of one request reads the
  parameter \<open>now\<close> of the handler. Columns that several tables share (id, phone,
  createdAt, userId) carry the table's initial as a prefix. A JavaScript number that
  comes out of a JSON body is a \<^typ>\<open>rat\<close> where the schema lets a fraction through,
  and an \<^typ>\<open>int\<close> where the schema says \<^verbatim>\<open>.int()\<close>.
\<close>

type_synonym timestamp = int

record user =
  u_id :: int
  username :: string
  password :: string
  fullName :: string
  u_phone :: string
  messagesRemaining :: int
  messagesSent :: int
  lastActivity :: timestamp
  isAdmin :: bool
  isActive :: bool
  u_createdAt :: timestamp

record message =
  m_id :: int
  m_userId :: int
  m_phone :: string
  m_message :: string
  m_status :: string
  m_type :: string
  m_createdAt :: timestamp

record otp =
  o_id :: int
  o_phone :: string
  o_code :: string
  expiresAt :: timestamp
  verified :: bool
  o_createdAt :: timestamp

record protected_number =
  p_id :: int
  p_phone :: string
  p_userId :: "int option"
  p_createdAt :: timestamp

section \<open>The SMS gateway\<close>

text \<open>
  The gateway is an external HTTP service. Each \<^verbatim>\<open>fetch\<close> is recorded in the log
  of requests; what comes back is not under the server's control, so it is a parameter:
  \<open>gw k r\<close> is the outcome of request \<open>r\<close> when \<open>k\<close> requests were made before it.
  An outcome is either an exception of \<^verbatim>\<open>fetch\<close>, or a response with its
  \<^verbatim>\<open>ok\<close> flag and, when the body parses as JSON, the \<^verbatim>\<open>status\<close> member
  together with the message id that
  \<^verbatim>\<open>JSON.parse(data.api_response).Response?.Message?.split(":")[1]?.trim()\<close>
  yields (\<open>None\<close> when that expression throws or is undefined).
\<close>

datatype gw_request =
  Custom_sms string string
| Bomber_api string rat

datatype gw_reply =
  Fetch_threw
| Http_response bool "(string \<times> string option) option"

type_synonym gateway = "nat \<Rightarrow> gw_request \<Rightarrow> gw_reply"

section \<open>The state of the server\<close>

record state =
  users :: "user list"
  messages :: "message list"
  otps :: "otp list"
  protectedNumbers :: "protected_number list"
  users_id_seq :: int
  messages_id_seq :: int
  otps_id_seq :: int
  protected_numbers_id_seq :: int
  gateway_log :: "gw_request list"

section \<open>DatabaseStorage (server/storage.ts)\<close>

subsection \<open>User methods\<close>

definition getUser :: "state \<Rightarrow> int \<Rightarrow> user option" where
  "getUser s uid =
     (case filter (\<lambda>u. u_id u = uid) (users s) of
        [] \<Rightarrow> None
      | u # _ \<Rightarrow> Some u)"

datatype db_error = Unique_violation | Invalid_integer

record insert_user =
  iu_username :: string
  iu_password :: string
  iu_fullName :: string
  iu_phone :: string
  iu_isAdmin :: "bool option"

text \<open>
  \<^verbatim>\<open>createUser\<close> inserts one row. The column \<^verbatim>\<open>username\<close> is declared
  \<^verbatim>\<open>unique()\<close>, so the insert throws when a row with the same username exists; the
  id drawn from the sequence is spent all the same.
\<close>

definition createUser ::
  "timestamp \<Rightarrow> insert_user \<Rightarrow> state \<Rightarrow> (db_error \<times> state) + (user \<times> state)" where
  "createUser now iu s =
     (let row = \<lparr> u_id = users_id_seq s,
                  username = iu_username iu,
                  password = iu_password iu,
                  fullName = iu_fullName iu,
                  u_phone = iu_phone iu,
                  messagesRemaining = 5,
                  messagesSent = 0,
                  lastActivity = now,
                  isAdmin = (case iu_isAdmin iu of None \<Rightarrow> False | Some b \<Rightarrow> b),
                  isActive = True,
                  u_createdAt = now \<rparr>;
          s1 = s\<lparr> users_id_seq := users_id_seq s + 1 \<rparr>
      in if iu_username iu \<in> set (map username (users s))
         then Inl (Unique_violation, s1)
         else Inr (row, s1\<lparr> users := users s @ [row] \<rparr>))"

definition updateUserMessageCount :: "timestamp \<Rightarrow> int \<Rightarrow> state \<Rightarrow> state" where
  "updateUserMessageCount now uid s =
     (case getUser s uid of
        None \<Rightarrow> s
      | Some user \<Rightarrow>
          s\<lparr> users :=
               map (\<lambda>u. if u_id u = uid
                         then u\<lparr> messagesRemaining := max 0 (messagesRemaining user - 1),
                                 messagesSent := messagesSent user + 1,
                                 lastActivity := now \<rparr>
                         else u)
                   (users s) \<rparr>)"

definition addUserCredits :: "int \<Rightarrow> int \<Rightarrow> state \<Rightarrow> state" where
  "addUserCredits uid credits s =
     s\<lparr> users :=
          map (\<lambda>u. if u_id u = uid
                    then u\<lparr> messagesRemaining := messagesRemaining u + credits \<rparr>
                    else u)
              (users s) \<rparr>"

definition removeUserCredits :: "int \<Rightarrow> int \<Rightarrow> state \<Rightarrow> state" where
  "removeUserCredits uid credits s =
     s\<lparr> users :=
          map (\<lambda>u. if u_id u = uid
                    then u\<lparr> messagesRemaining := max 0 (messagesRemaining u - credits) \<rparr>
                    else u)
              (users s) \<rparr>"

subsection \<open>Sequences of ledger operations\<close>

text \<open>
  The three methods that write \<^verbatim>\<open>messagesRemaining\<close>, as one operation type, and a
  run of them from left to right.
\<close>

datatype ledger_op =
  Debit timestamp int
| Remove_credits int int
| Add_credits int int

fun ledger_step :: "ledger_op \<Rightarrow> state \<Rightarrow> state" where
  "ledger_step (Debit now uid) s = updateUserMessageCount now uid s"
| "ledger_step (Remove_credits uid n) s = removeUserCredits uid n s"
| "ledger_step (Add_credits uid n) s = addUserCredits uid n s"

fun ledger_run :: "ledger_op list \<Rightarrow> state \<Rightarrow> state" where
  "ledger_run [] s = s"
| "ledger_run (x # xs) s = ledger_run xs (ledger_step x s)"

fun adds_nothing_negative :: "ledger_op \<Rightarrow> bool" where
  "adds_nothing_negative (Add_credits uid n) = (0 \<le> n)"
| "adds_nothing_negative _ = True"

subsection \<open>Message methods\<close>

text \<open>
  The argument of \<^verbatim>\<open>createMessage\<close> may leave out status and type. The row is
  built as \<^verbatim>\<open>{...insertMessage, status: "sent", createdAt: new Date()}\<close>: the
  status written after the spread replaces whatever the caller passed, and a missing
  type takes the column's default "custom".
\<close>

record insert_message =
  im_userId :: int
  im_phone :: string
  im_message :: string
  im_status :: "string option"
  im_type :: "string option"

definition createMessage :: "timestamp \<Rightarrow> insert_message \<Rightarrow> state \<Rightarrow> message \<times> state" where
  "createMessage now im s =
     (let row = \<lparr> m_id = messages_id_seq s,
                  m_userId = im_userId im,
                  m_phone = im_phone im,
                  m_message = im_message im,
                  m_status = ''sent'',
                  m_type = (case im_type im of None \<Rightarrow> ''custom'' | Some t \<Rightarrow> t),
                  m_createdAt = now \<rparr>
      in (row, s\<lparr> messages := messages s @ [row],
                  messages_id_seq := messages_id_seq s + 1 \<rparr>))"

definition updateMessageStatus :: "int \<Rightarrow> string \<Rightarrow> state \<Rightarrow> state" where
  "updateMessageStatus mid st s =
     s\<lparr> messages := map (\<lambda>m. if m_id m = mid then m\<lparr> m_status := st \<rparr> else m) (messages s) \<rparr>"

subsection \<open>OTP methods\<close>

record insert_otp =
  io_phone :: string
  io_code :: string
  io_expiresAt :: timestamp

definition createOtp :: "timestamp \<Rightarrow> insert_otp \<Rightarrow> state \<Rightarrow> otp \<times> state" where
  "createOtp now io s =
     (let row = \<lparr> o_id = otps_id_seq s,
                  o_phone = io_phone io,
                  o_code = io_code io,
                  expiresAt = io_expiresAt io,
                  verified = False,
                  o_createdAt = now \<rparr>
      in (row, s\<lparr> otps := otps s @ [row], otps_id_seq := otps_id_seq s + 1 \<rparr>))"

text \<open>
  \<^verbatim>\<open>where(eq(otps.phone, phone)).orderBy(desc(otps.createdAt)).limit(1)\<close>: of the
  rows of the phone, one whose createdAt no other of them exceeds. When several rows
  share the greatest createdAt the query does not say which of them comes first; that
  is the engine's choice at each execution, here the parameter \<open>tie\<close> (the position of
  the returned row among the tied ones, in table order, wrapping around).
\<close>

definition newest :: "otp list \<Rightarrow> otp list" where
  "newest rows = filter (\<lambda>r. list_all (\<lambda>r'. o_createdAt r' \<le> o_createdAt r) rows) rows"

definition getLatestOtp :: "nat \<Rightarrow> state \<Rightarrow> string \<Rightarrow> otp option" where
  "getLatestOtp tie s phone =
     (let top = newest (filter (\<lambda>r. o_phone r = phone) (otps s));
          result = (if top = [] then [] else [top ! (tie mod length top)])
      in case result of [] \<Rightarrow> None | r # _ \<Rightarrow> Some r)"

definition verifyOtp :: "int \<Rightarrow> state \<Rightarrow> state" where
  "verifyOtp oid s =
     s\<lparr> otps := map (\<lambda>r. if o_id r = oid then r\<lparr> verified := True \<rparr> else r) (otps s) \<rparr>"

subsection \<open>Protected number methods\<close>

definition isNumberProtected :: "state \<Rightarrow> string \<Rightarrow> bool" where
  "isNumberProtected s phone = (0 < length (filter (\<lambda>r. p_phone r = phone) (protectedNumbers s)))"

section \<open>Responses\<close>

text \<open>
  A response is the HTTP status and the JSON body, an object whose members are listed in
  the order the handler writes them. Most bodies are \<^verbatim>\<open>{ message }\<close>.
\<close>

datatype json =
  JString string
| JNumber int
| JBool bool
| JUndefined
| JArray "json list"
| JObject "(string \<times> json) list"

record response =
  res_status :: nat
  res_body :: "(string \<times> json) list"

definition reply :: "nat \<Rightarrow> string \<Rightarrow> response" where
  "reply st msg = \<lparr> res_status = st, res_body = [(''message'', JString msg)] \<rparr>"

text \<open>
  A number inside a template literal: the decimal digits of an integer, with a minus
  sign when it is negative.
\<close>

fun show_nat :: "nat \<Rightarrow> string" where
  "show_nat n =
     (if n < 10 then [''0123456789'' ! n]
      else show_nat (n div 10) @ [''0123456789'' ! (n mod 10)])"

declare show_nat.simps [simp del]

definition show_int :: "int \<Rightarrow> string" where
  "show_int i = (if i < 0 then CHR ''-'' # show_nat (nat (- i)) else show_nat (nat i))"

text \<open>
  A number that may be a fraction: as an integer when it is one, otherwise the integer
  part, a point and the decimal digits after it. JavaScript prints the shortest
  decimal that reads back as the same double, at most 17 significant digits; for the
  short decimals of a JSON body (2.5, 0.75) these are the digits below.
\<close>

fun frac_digits :: "nat \<Rightarrow> rat \<Rightarrow> string" where
  "frac_digits 0 q = []"
| "frac_digits (Suc n) q =
     (if q = 0 then []
      else (''0123456789'' ! nat \<lfloor>10 * q\<rfloor>) # frac_digits n (10 * q - of_int \<lfloor>10 * q\<rfloor>))"

definition show_number :: "rat \<Rightarrow> string" where
  "show_number q =
     (if of_int \<lfloor>q\<rfloor> = q then show_int \<lfloor>q\<rfloor>
      else (if q < 0 then ''-'' else []) @ show_nat (nat \<lfloor>\<bar>q\<bar>\<rfloor>) @ ''.''
           @ frac_digits 17 (\<bar>q\<bar> - of_int \<lfloor>\<bar>q\<bar>\<rfloor>))"

text \<open>\<^verbatim>\<open>a || b\<close> on an optional string: \<open>b\<close> when \<open>a\<close> is undefined or empty.\<close>

definition or_default :: "string option \<Rightarrow> string \<Rightarrow> string" where
  "or_default a b = (case a of None \<Rightarrow> b | Some x \<Rightarrow> if x = [] then b else x)"

definition json_opt :: "string option \<Rightarrow> json" where
  "json_opt a = (case a of None \<Rightarrow> JUndefined | Some x \<Rightarrow> JString x)"

section \<open>Gateway client (server/routes.ts)\<close>

record send_result =
  success :: bool
  messageId :: "string option"
  error :: "string option"

definition json_result :: "send_result \<Rightarrow> json" where
  "json_result r =
     JObject ([(''success'', JBool (success r))]
              @ (if success r then [(''messageId'', json_opt (messageId r))]
                 else [(''error'', json_opt (error r))]))"

definition fetch :: "gateway \<Rightarrow> gw_request \<Rightarrow> state \<Rightarrow> gw_reply \<times> state" where
  "fetch gw r s = (gw (length (gateway_log s)) r, s\<lparr> gateway_log := gateway_log s @ [r] \<rparr>)"

text \<open>
  \<^verbatim>\<open>sendCustomMessage\<close> after its \<^verbatim>\<open>fetch\<close>: an exception there or in
  \<^verbatim>\<open>response.json()\<close> is caught by the outer \<^verbatim>\<open>catch\<close>; otherwise the call
  succeeded exactly when \<^verbatim>\<open>data.status === "success"\<close>.
\<close>

definition custom_result :: "gw_reply \<Rightarrow> send_result" where
  "custom_result response =
     (case response of
        Fetch_threw \<Rightarrow>
          \<lparr> success = False, messageId = None, error = Some ''Error processing request'' \<rparr>
      | Http_response ok None \<Rightarrow>
          \<lparr> success = False, messageId = None, error = Some ''Error processing request'' \<rparr>
      | Http_response ok (Some (status, mid)) \<Rightarrow>
          if status = ''success''
          then \<lparr> success = True, messageId = mid, error = None \<rparr>
          else \<lparr> success = False, messageId = None, error = Some ''Failed to send message'' \<rparr>)"

definition sendCustomMessage ::
  "gateway \<Rightarrow> string \<Rightarrow> string \<Rightarrow> state \<Rightarrow> send_result \<times> state" where
  "sendCustomMessage gw phone msg s =
     (let (response, s') = fetch gw (Custom_sms phone msg) s
      in (custom_result response, s'))"

text \<open>\<^verbatim>\<open>sendBomberMessage\<close> after its \<^verbatim>\<open>fetch\<close>: only \<^verbatim>\<open>response.ok\<close> counts.\<close>

definition bomber_result :: "gw_reply \<Rightarrow> send_result" where
  "bomber_result response =
     (case response of
        Fetch_threw \<Rightarrow>
          \<lparr> success = False, messageId = None, error = Some ''Error processing request'' \<rparr>
      | Http_response ok data \<Rightarrow>
          if ok
          then \<lparr> success = True, messageId = None, error = None \<rparr>
          else \<lparr> success = False, messageId = None,
                 error = Some ''Failed to send bomber messages'' \<rparr>)"

definition sendBomberMessage ::
  "gateway \<Rightarrow> string \<Rightarrow> rat \<Rightarrow> state \<Rightarrow> send_result \<times> state" where
  "sendBomberMessage gw phone repeat s =
     (let (response, s') = fetch gw (Bomber_api phone repeat) s
      in (bomber_result response, s'))"

section \<open>Middleware\<close>

text \<open>
  The session holds a user id, or nothing. Passport reads the row of that id before
  each request (\<^verbatim>\<open>deserializeUser\<close>); \<^verbatim>\<open>req.user\<close> is that row, and the request
  counts as authenticated only when there is one.
\<close>

definition deserializeUser :: "state \<Rightarrow> int option \<Rightarrow> user option" where
  "deserializeUser s session = (case session of None \<Rightarrow> None | Some uid \<Rightarrow> getUser s uid)"

definition unauthorized :: response where
  "unauthorized = reply 401 ''Unauthorized''"

definition forbidden :: response where
  "forbidden = reply 403 ''Forbidden''"

text \<open>
  \<^verbatim>\<open>validateRequest(schema)\<close> answers 400 "Validation error" when the body does not
  parse (the member \<^verbatim>\<open>errors\<close>, zod's list of issues, is left out of the model). A
  body is given with its members already typed; the schema predicates below are the
  bounds zod checks on them. \<^verbatim>\<open>credits\<close> is \<^verbatim>\<open>z.number().int()\<close>, an integer;
  \<^verbatim>\<open>repeat\<close> is \<^verbatim>\<open>z.number().min(1)\<close> with no \<^verbatim>\<open>.int()\<close>, so 2.5 passes.
\<close>

definition validation_error :: response where
  "validation_error = reply 400 ''Validation error''"

record otp_body =
  ob_phone :: string
  ob_code :: string

definition validateOtpSchema :: "otp_body \<Rightarrow> bool" where
  "validateOtpSchema b =
     (10 \<le> length (ob_phone b) \<and> length (ob_phone b) \<le> 15 \<and> length (ob_code b) = 6)"

record send_body =
  sb_phone :: string
  sb_message :: string

definition sendMessageSchema :: "send_body \<Rightarrow> bool" where
  "sendMessageSchema b =
     (10 \<le> length (sb_phone b) \<and> length (sb_phone b) \<le> 15 \<and>
      1 \<le> length (sb_message b) \<and> length (sb_message b) \<le> 160)"

definition customMessageSchema :: "send_body \<Rightarrow> bool" where
  "customMessageSchema b =
     (10 \<le> length (sb_phone b) \<and> length (sb_phone b) \<le> 15 \<and>
      1 \<le> length (sb_message b) \<and> length (sb_message b) \<le> 160)"

record bomber_body =
  bb_phone :: string
  bb_repeat :: rat
  bb_message :: "string option"

definition bomberSchema :: "bomber_body \<Rightarrow> bool" where
  "bomberSchema b =
     (10 \<le> length (bb_phone b) \<and> length (bb_phone b) \<le> 15 \<and>
      1 \<le> bb_repeat b \<and>
      (case bb_message b of None \<Rightarrow> True | Some m \<Rightarrow> length m \<le> 50))"

record credit_body =
  cb_reason :: string
  cb_credits :: int

definition creditRequestSchema :: "credit_body \<Rightarrow> bool" where
  "creditRequestSchema b =
     (10 \<le> length (cb_reason b) \<and> length (cb_reason b) \<le> 200 \<and>
      1 \<le> cb_credits b \<and> cb_credits b \<le> 100)"

text \<open>
  \<^verbatim>\<open>insertUserSchema\<close> only asks for four strings and an optional boolean, which the
  type of the body already says.
\<close>

definition insertUserSchema :: "insert_user \<Rightarrow> bool" where
  "insertUserSchema b = True"

section \<open>Routes (server/routes.ts)\<close>

text \<open>
  A handler takes what it reads from outside (the gateway, the clock, the session, the
  body) and the state, and returns the response with the new state. The guards run in
  the order of the route's declaration: \<^verbatim>\<open>isAuthenticated\<close> or \<^verbatim>\<open>isAdmin\<close>
  first, then \<^verbatim>\<open>validateRequest\<close>, then the body of the handler.
\<close>

subsection \<open>POST /api/verify-otp\<close>

definition verify_otp ::
  "nat \<Rightarrow> timestamp \<Rightarrow> otp_body \<Rightarrow> state \<Rightarrow> response \<times> state" where
  "verify_otp tie now body s =
     (if \<not> validateOtpSchema body then (validation_error, s)
      else case getLatestOtp tie s (ob_phone body) of
        None \<Rightarrow> (reply 400 ''No verification code found'', s)
      | Some otpRecord \<Rightarrow>
          if verified otpRecord then (reply 400 ''Code already verified'', s)
          else if now > expiresAt otpRecord then (reply 400 ''Verification code expired'', s)
          else if o_code otpRecord \<noteq> ob_code body
            then (reply 400 ''Invalid verification code'', s)
          else (reply 200 ''Verification successful'', verifyOtp (o_id otpRecord) s))"

subsection \<open>POST /api/complete-registration\<close>

text \<open>
  \<^verbatim>\<open>hashPassword\<close> salts with random bytes; it is the parameter \<open>hash\<close>. An
  exception of the storage layer goes to the error middleware, which answers with
  \<^verbatim>\<open>err.status || err.statusCode || 500\<close> and the error's message (Postgres' text,
  which goes on to name the constraint or the rejected value). On success
  \<^verbatim>\<open>req.login\<close> puts the new user's id into the session, so this handler returns the
  session as well.
\<close>

definition error_handler :: "db_error \<Rightarrow> response" where
  "error_handler err =
     (case err of
        Unique_violation \<Rightarrow> reply 500 ''duplicate key value violates unique constraint''
      | Invalid_integer \<Rightarrow> reply 500 ''invalid input syntax for type integer'')"

definition json_user :: "user \<Rightarrow> (string \<times> json) list" where
  "json_user u =
     [(''id'', JNumber (u_id u)),
      (''username'', JString (username u)),
      (''fullName'', JString (fullName u)),
      (''phone'', JString (u_phone u)),
      (''messagesRemaining'', JNumber (messagesRemaining u)),
      (''messagesSent'', JNumber (messagesSent u)),
      (''isAdmin'', JBool (isAdmin u)),
      (''isActive'', JBool (isActive u))]"

definition complete_registration ::
  "(string \<Rightarrow> string) \<Rightarrow> nat \<Rightarrow> timestamp \<Rightarrow> int option \<Rightarrow> insert_user \<Rightarrow> state
     \<Rightarrow> response \<times> int option \<times> state" where
  "complete_registration hash tie now session body s =
     (if \<not> insertUserSchema body then (validation_error, session, s)
      else case getLatestOtp tie s (iu_phone body) of
        None \<Rightarrow> (reply 400 ''Phone not verified'', session, s)
      | Some otpRecord \<Rightarrow>
          if \<not> verified otpRecord then (reply 400 ''Phone not verified'', session, s)
          else case createUser now (body\<lparr> iu_password := hash (iu_password body) \<rparr>) s of
            Inl (err, s') \<Rightarrow> (error_handler err, session, s')
          | Inr (user, s') \<Rightarrow>
              (\<lparr> res_status = 201, res_body = json_user user \<rparr>,
               Some (u_id user), s'))"

subsection \<open>POST /api/send-message\<close>

definition send_message ::
  "gateway \<Rightarrow> timestamp \<Rightarrow> int option \<Rightarrow> send_body \<Rightarrow> state \<Rightarrow> response \<times> state" where
  "send_message gw now session body s =
     (case deserializeUser s session of
        None \<Rightarrow> (unauthorized, s)
      | Some user \<Rightarrow>
          if \<not> sendMessageSchema body then (validation_error, s)
          else if \<not> isActive user then (reply 403 ''Your account is disabled'', s)
          else if messagesRemaining user \<le> 0
            then (reply 403 ''You have no messages remaining'', s)
          else
            let phone = sb_phone body;
                msg = sb_message body;
                (result, s1) = sendCustomMessage gw phone msg s
            in if \<not> success result
               then (reply 500 (or_default (error result) ''Failed to send message''), s1)
               else
                 let s2 = updateUserMessageCount now (u_id user) s1;
                     (savedMessage, s3) =
                       createMessage now
                         \<lparr> im_userId = u_id user, im_phone = phone, im_message = msg,
                           im_status = None, im_type = None \<rparr> s2
                 in (\<lparr> res_status = 200,
                       res_body =
                         [(''message'', JString ''Message sent successfully''),
                          (''messageId'', json_opt (messageId result)),
                          (''id'', JNumber (m_id savedMessage)),
                          (''messagesRemaining'', JNumber (messagesRemaining user - 1)),
                          (''messagesSent'', JNumber (messagesSent user + 1))] \<rparr>,
                     s3))"

subsection \<open>Admin routes\<close>

definition isAdmin_guard :: "state \<Rightarrow> int option \<Rightarrow> bool" where
  "isAdmin_guard s session =
     (case deserializeUser s session of None \<Rightarrow> False | Some user \<Rightarrow> isAdmin user)"

definition admin_custom_message ::
  "gateway \<Rightarrow> int option \<Rightarrow> send_body \<Rightarrow> state \<Rightarrow> response \<times> state" where
  "admin_custom_message gw session body s =
     (if \<not> isAdmin_guard s session then (forbidden, s)
      else if \<not> customMessageSchema body then (validation_error, s)
      else
        let phone = sb_phone body;
            msg = sb_message body;
            (result, s1) = sendCustomMessage gw phone msg s
        in if \<not> success result
           then (reply 500 (or_default (error result) ''Failed to send message''), s1)
           else (\<lparr> res_status = 200,
                   res_body =
                     [(''message'', JString (''Successfully sent message to '' @ phone)),
                      (''messageId'', json_opt (messageId result))] \<rparr>,
                 s1))"

text \<open>
  The loop \<^verbatim>\<open>for (let i = 0; i < repeat; i++)\<close> of the admin bomber, with its three
  variables \<open>i\<close>, \<open>results\<close> and \<open>success\<close> (here \<open>succ\<close>). The counter is an integer,
  the bound \<open>repeat\<close> whatever number the body carried.
\<close>

function admin_bomber_loop ::
  "gateway \<Rightarrow> string \<Rightarrow> string \<Rightarrow> rat \<Rightarrow> int \<Rightarrow> send_result list \<Rightarrow> int \<Rightarrow> state
     \<Rightarrow> send_result list \<times> int \<times> state" where
  "admin_bomber_loop gw phone msg repeat i results succ s =
     (if of_int i < repeat
      then let (result2, s') = sendCustomMessage gw phone msg s
           in admin_bomber_loop gw phone msg repeat (i + 1) (results @ [result2])
                (if success result2 then succ + 1 else succ) s'
      else (results, succ, s))"
  by pat_completeness auto
termination
  by (relation "measure (\<lambda>(gw, phone, msg, repeat, i, results, succ, s). nat (\<lceil>repeat\<rceil> - i))")
     (auto simp: less_ceiling_iff)

declare admin_bomber_loop.simps [simp del]

text \<open>\<^verbatim>\<open>if (message)\<close>: the member is present and not the empty string.\<close>

definition truthy :: "string option \<Rightarrow> bool" where
  "truthy m = (case m of None \<Rightarrow> False | Some x \<Rightarrow> x \<noteq> [])"

definition admin_bomber ::
  "gateway \<Rightarrow> int option \<Rightarrow> bomber_body \<Rightarrow> state \<Rightarrow> response \<times> state" where
  "admin_bomber gw session body s =
     (if \<not> isAdmin_guard s session then (forbidden, s)
      else if \<not> bomberSchema body then (validation_error, s)
      else
        let phone = bb_phone body; repeat = bb_repeat body in
        if isNumberProtected s phone
        then (reply 403 ''This number is protected from bomber messages'', s)
        else if truthy (bb_message body)
        then
          let (results, succ, s1) =
                admin_bomber_loop gw phone (the (bb_message body)) repeat 0 [] 0 s
          in (\<lparr> res_status = 200,
                res_body =
                  [(''message'', JString (''Sent '' @ show_int succ @ '' of ''
                                           @ show_number repeat
                                           @ '' messages successfully'')),
                   (''results'', JArray (map json_result results))] \<rparr>,
              s1)
        else
          let (result, s1) = sendBomberMessage gw phone repeat s
          in if \<not> success result
             then (reply 500 (or_default (error result) ''Failed to send bomber messages''), s1)
             else (reply 200 (''Requested '' @ show_number repeat @ '' messages to be sent''),
                   s1))"

text \<open>
  The next route has no \<^verbatim>\<open>validateRequest\<close>: the three members of the body reach
  the storage layer as they come.
\<close>

record approve_body =
  ab_messageId :: int
  ab_userId :: int
  ab_credits :: int

definition approve_credit_request ::
  "timestamp \<Rightarrow> int option \<Rightarrow> approve_body \<Rightarrow> state \<Rightarrow> response \<times> state" where
  "approve_credit_request now session body s =
     (if \<not> isAdmin_guard s session then (forbidden, s)
      else
        let s1 = addUserCredits (ab_userId body) (ab_credits body) s;
            s2 = updateMessageStatus (ab_messageId body) ''approved'' s1;
            (row, s3) =
              createMessage now
                \<lparr> im_userId = ab_userId body, im_phone = ''SYSTEM'',
                  im_message = ''ADMIN APPROVED '' @ show_int (ab_credits body)
                               @ '' credit request'',
                  im_status = Some ''sent'', im_type = Some ''system'' \<rparr> s2
        in (\<lparr> res_status = 200,
              res_body =
                [(''message'', JString (''Successfully approved '' @ show_int (ab_credits body)
                                         @ '' credits'')),
                 (''credits'', JNumber (ab_credits body))] \<rparr>,
            s3))"

subsection \<open>POST /api/request-credits\<close>

definition request_credits ::
  "timestamp \<Rightarrow> int option \<Rightarrow> credit_body \<Rightarrow> state \<Rightarrow> response \<times> state" where
  "request_credits now session body s =
     (case deserializeUser s session of
        None \<Rightarrow> (unauthorized, s)
      | Some user \<Rightarrow>
          if \<not> creditRequestSchema body then (validation_error, s)
          else
            let reason = cb_reason body;
                credits = cb_credits body;
                (row, s1) =
                  createMessage now
                    \<lparr> im_userId = u_id user, im_phone = ''SYSTEM'',
                      im_message = ''CREDIT REQUEST - User: '' @ username user
                                   @ '', Credits: '' @ show_int credits
                                   @ '', Reason: '' @ reason,
                      im_status = Some ''pending'', im_type = Some ''credit_request'' \<rparr> s
            in (\<lparr> res_status = 200,
                  res_body =
                    [(''message'', JString ''Credit request submitted successfully''),
                     (''credits'', JNumber credits)] \<rparr>,
                s1))"

subsection \<open>POST /api/bomber\<close>

text \<open>
  \<^verbatim>\<open>removeUserCredits(user.id, repeat)\<close> hands \<open>repeat\<close> to the SQL expression
  \<^verbatim>\<open>GREATEST(0, messages_remaining - $1)\<close> as a parameter, which Postgres reads as an
  integer like the column. The text of a fraction is not an integer: the statement
  fails, the method throws, and the handler's \<^verbatim>\<open>catch\<close> passes the error on.
\<close>

definition int_param :: "rat \<Rightarrow> db_error + int" where
  "int_param q = (if of_int \<lfloor>q\<rfloor> = q then Inr \<lfloor>q\<rfloor> else Inl Invalid_integer)"

definition bomber ::
  "gateway \<Rightarrow> timestamp \<Rightarrow> int option \<Rightarrow> bomber_body \<Rightarrow> state \<Rightarrow> response \<times> state" where
  "bomber gw now session body s =
     (case deserializeUser s session of
        None \<Rightarrow> (unauthorized, s)
      | Some user \<Rightarrow>
          if \<not> bomberSchema body then (validation_error, s)
          else
            let phone = bb_phone body; repeat = bb_repeat body in
            if of_int (messagesRemaining user) < repeat
            then (reply 400 ''You don't have enough credits'', s)
            else if \<not> isActive user then (reply 403 ''Your account is suspended'', s)
            else if isNumberProtected s phone
            then (reply 403 ''This number is protected from bomber messages'', s)
            else
              let (result, s1) = sendBomberMessage gw phone repeat s
              in if \<not> success result
                 then (reply 500 (or_default (error result) ''Failed to send messages''), s1)
                 else case int_param repeat of
                   Inl err \<Rightarrow> (error_handler err, s1)
                 | Inr n \<Rightarrow>
                   let s2 = removeUserCredits (u_id user) n s1;
                       s3 = updateUserMessageCount now (u_id user) s2;
                       (row, s4) =
                         createMessage now
                           \<lparr> im_userId = u_id user, im_phone = phone,
                             im_message = ''BOMBER: Sent '' @ show_number repeat @ '' messages'',
                             im_status = Some ''sent'', im_type = Some ''bomber'' \<rparr> s3
                   in (\<lparr> res_status = 200,
                         res_body =
                           [(''message'', JString (''Successfully sent '' @ show_number repeat
                                                    @ '' messages'')),
                            (''messagesRemaining'', JNumber (messagesRemaining user - n))] \<rparr>,
                       s4))"

section \<open>Example data\<close>

definition alice :: user where
  "alice = \<lparr> u_id = 1, username = ''alice'', password = ''h1.s1'', fullName = ''Alice A'',
             u_phone = ''5550000001'', messagesRemaining = 5, messagesSent = 0,
             lastActivity = 0, isAdmin = False, isActive = True, u_createdAt = 0 \<rparr>"

definition vbs :: user where
  "vbs = \<lparr> u_id = 2, username = ''vbs'', password = ''h2.s2'', fullName = ''VBS Admin'',
           u_phone = ''1234567890'', messagesRemaining = 5, messagesSent = 0,
           lastActivity = 0, isAdmin = True, isActive = True, u_createdAt = 0 \<rparr>"

definition db0 :: state where
  "db0 = \<lparr> users = [alice, vbs], messages = [], otps = [], protectedNumbers = [],
           users_id_seq = 3, messages_id_seq = 1, otps_id_seq = 1,
           protected_numbers_id_seq = 1, gateway_log = [] \<rparr>"

text \<open>The same database with one protected number.\<close>

definition db_protected :: state where
  "db_protected =
     db0\<lparr> protectedNumbers :=
            [\<lparr> p_id = 1, p_phone = ''5550000009'', p_userId = None, p_createdAt = 0 \<rparr>],
          protected_numbers_id_seq := 2 \<rparr>"

text \<open>
  The same database with two OTP rows for one phone: an older one, used up, and the
  latest one, still open, which expires at 900000. In \<open>db_otp_verified\<close> the latest
  one has been verified.
\<close>

definition otp_old :: otp where
  "otp_old = \<lparr> o_id = 1, o_phone = ''5550000003'', o_code = ''111111'',
               expiresAt = 800000, verified = True, o_createdAt = 0 \<rparr>"

definition otp_open :: otp where
  "otp_open = \<lparr> o_id = 2, o_phone = ''5550000003'', o_code = ''123456'',
                expiresAt = 900000, verified = False, o_createdAt = 100 \<rparr>"

definition db_otp_open :: state where
  "db_otp_open = db0\<lparr> otps := [otp_old, otp_open], otps_id_seq := 3 \<rparr>"

definition db_otp_verified :: state where
  "db_otp_verified =
     db0\<lparr> otps := [otp_old, otp_open\<lparr> verified := True \<rparr>], otps_id_seq := 3 \<rparr>"

text \<open>
  Two OTP rows of one phone created in the same millisecond, the first verified, the
  second not.
\<close>

definition db_otp_tie :: state where
  "db_otp_tie =
     db0\<lparr> otps := [otp_open\<lparr> o_id := 1, verified := True \<rparr>, otp_open], otps_id_seq := 3 \<rparr>"

text \<open>
  Three gateways: one where every request succeeds, one where every request fails,
  and one where only the second request fails.
\<close>

definition gw_ok :: gateway where
  "gw_ok k r = Http_response True (Some (''success'', None))"

definition gw_down :: gateway where
  "gw_down k r = Fetch_threw"

definition gw_second_fails :: gateway where
  "gw_second_fails k r =
     (if k = 1 then Http_response True (Some (''error'', None))
      else Http_response True (Some (''success'', None)))"

section \<open>Facts about the storage layer and the gateway client\<close>

lemmas example_defs = db0_def db_protected_def db_otp_open_def db_otp_verified_def db_otp_tie_def
  otp_open_def otp_old_def alice_def vbs_def gw_ok_def gw_down_def gw_second_fails_def

lemmas storage_defs = getUser_def deserializeUser_def isAdmin_guard_def isNumberProtected_def
  getLatestOtp_def newest_def verifyOtp_def createMessage_def updateUserMessageCount_def
  removeUserCredits_def addUserCredits_def updateMessageStatus_def

lemmas gateway_defs = sendCustomMessage_def sendBomberMessage_def fetch_def custom_result_def
  bomber_result_def

lemmas schema_defs = bomberSchema_def sendMessageSchema_def customMessageSchema_def
  validateOtpSchema_def creditRequestSchema_def insertUserSchema_def

text \<open>A row found by id has that id, and an update that keeps ids commutes with the lookup.\<close>

lemma getUser_id: "getUser s uid = Some u \<Longrightarrow> u_id u = uid"
proof -
  assume a: "getUser s uid = Some u"
  then obtain rest where "filter (\<lambda>u. u_id u = uid) (users s) = u # rest"
    by (auto simp: getUser_def split: list.splits)
  then have "u \<in> set (filter (\<lambda>u. u_id u = uid) (users s))" by simp
  then show ?thesis by simp
qed

lemma getUser_map:
  assumes "\<And>u. u_id (f u) = u_id u"
  shows "getUser (s\<lparr> users := map f (users s) \<rparr>) uid = map_option f (getUser s uid)"
proof -
  have "filter (\<lambda>u. u_id u = uid) (map f (users s)) = map f (filter (\<lambda>u. u_id u = uid) (users s))"
    by (simp add: filter_map o_def assms)
  then show ?thesis
    by (simp add: getUser_def split: list.splits)
qed

lemma sendCustomMessage_eq:
  "sendCustomMessage gw phone msg s =
     (custom_result (gw (length (gateway_log s)) (Custom_sms phone msg)),
      s\<lparr> gateway_log := gateway_log s @ [Custom_sms phone msg] \<rparr>)"
  by (simp add: sendCustomMessage_def fetch_def)

lemma sendBomberMessage_eq:
  "sendBomberMessage gw phone repeat s =
     (bomber_result (gw (length (gateway_log s)) (Bomber_api phone repeat)),
      s\<lparr> gateway_log := gateway_log s @ [Bomber_api phone repeat] \<rparr>)"
  by (simp add: sendBomberMessage_def fetch_def)

lemma getUser_gateway_log [simp]: "getUser (s\<lparr> gateway_log := l \<rparr>) uid = getUser s uid"
  by (simp add: getUser_def)

lemma updateUserMessageCount_getUser:
  assumes "getUser s uid = Some user"
  shows "getUser (updateUserMessageCount now uid s) uid =
           Some (user\<lparr> messagesRemaining := max 0 (messagesRemaining user - 1),
                       messagesSent := messagesSent user + 1,
                       lastActivity := now \<rparr>)"
proof -
  let ?f = "\<lambda>u. if u_id u = uid
                 then u\<lparr> messagesRemaining := max 0 (messagesRemaining user - 1),
                         messagesSent := messagesSent user + 1,
                         lastActivity := now \<rparr>
                 else u"
  have "updateUserMessageCount now uid s = s\<lparr> users := map ?f (users s) \<rparr>"
    using assms by (simp add: updateUserMessageCount_def)
  moreover have "getUser (s\<lparr> users := map ?f (users s) \<rparr>) uid = map_option ?f (getUser s uid)"
    by (rule getUser_map) simp
  ultimately show ?thesis
    using assms getUser_id [OF assms] by simp
qed

text \<open>
  What \<^verbatim>\<open>getLatestOtp\<close> returns, whichever of the tied rows the engine picks: nothing
  exactly when the phone has no row; otherwise a row of the table, of that phone, with no
  row of that phone created later. When one row of the phone is strictly the newest, it
  is that row.
\<close>

lemma newest_nonempty: "rows \<noteq> [] \<Longrightarrow> newest rows \<noteq> []"
proof -
  assume ne: "rows \<noteq> []"
  let ?M = "Max (o_createdAt ` set rows)"
  have "?M \<in> o_createdAt ` set rows"
    using ne by (intro Max_in) simp_all
  then obtain r where r: "r \<in> set rows" "o_createdAt r = ?M" by auto
  have "\<forall>r' \<in> set rows. o_createdAt r' \<le> o_createdAt r"
    unfolding r(2) by (simp add: Max_ge)
  then have "r \<in> set (newest rows)"
    using r(1) by (simp add: newest_def list_all_iff)
  then show ?thesis by auto
qed

lemma getLatestOtp_None:
  "(getLatestOtp tie s phone = None) = (phone \<notin> set (map o_phone (otps s)))"
proof -
  let ?rows = "filter (\<lambda>r. o_phone r = phone) (otps s)"
  have "(newest ?rows = []) = (?rows = [])"
    using newest_nonempty [of ?rows] by (auto simp: newest_def)
  moreover have "(?rows = []) = (phone \<notin> set (map o_phone (otps s)))"
    by (auto simp: filter_empty_conv)
  ultimately show ?thesis
    by (simp add: getLatestOtp_def Let_def)
qed

lemma getLatestOtp_Some:
  assumes "getLatestOtp tie s phone = Some r"
  shows "r \<in> set (otps s)" and "o_phone r = phone"
    and "\<forall>r' \<in> set (otps s). o_phone r' = phone \<longrightarrow> o_createdAt r' \<le> o_createdAt r"
proof -
  let ?rows = "filter (\<lambda>r. o_phone r = phone) (otps s)"
  let ?top = "newest ?rows"
  have ne: "?top \<noteq> []" and r: "r = ?top ! (tie mod length ?top)"
    using assms by (auto simp: getLatestOtp_def Let_def split: if_splits)
  have "tie mod length ?top < length ?top" using ne by simp
  then have "r \<in> set ?top" unfolding r by (rule nth_mem)
  then have "r \<in> set ?rows" and "list_all (\<lambda>r'. o_createdAt r' \<le> o_createdAt r) ?rows"
    by (simp_all add: newest_def)
  then show "r \<in> set (otps s)" and "o_phone r = phone"
    and "\<forall>r' \<in> set (otps s). o_phone r' = phone \<longrightarrow> o_createdAt r' \<le> o_createdAt r"
    by (simp_all add: list_all_iff)
qed

lemma getLatestOtp_single_newest:
  assumes "r \<in> set (otps s)" and "o_phone r = phone"
    and "\<forall>r' \<in> set (otps s). o_phone r' = phone \<and> r' \<noteq> r \<longrightarrow> o_createdAt r' < o_createdAt r"
  shows "getLatestOtp tie s phone = Some r"
proof (cases "getLatestOtp tie s phone")
  case None
  then show ?thesis
    using assms(1,2) by (auto simp: getLatestOtp_None)
next
  case (Some x)
  note props = getLatestOtp_Some [OF Some]
  have "o_createdAt r \<le> o_createdAt x" using props(3) assms(1,2) by blast
  then have "x = r" using assms(3) props(1,2) by force
  then show ?thesis using Some by simp
qed

text \<open>
  Whatever status the caller passes, \<^verbatim>\<open>createMessage\<close> stores "sent".
\<close>

lemma createMessage_status: "m_status (fst (createMessage now im s)) = ''sent''"
  by (simp add: createMessage_def Let_def)

text \<open>Printing numbers: the fuel of \<open>frac_digits\<close> as a numeral, and an integer as itself.\<close>

lemma frac_digits_numeral:
  "frac_digits (numeral k) q =
     (if q = 0 then []
      else (''0123456789'' ! nat \<lfloor>10 * q\<rfloor>)
           # frac_digits (pred_numeral k) (10 * q - of_int \<lfloor>10 * q\<rfloor>))"
  by (simp add: numeral_eq_Suc)

lemma show_number_of_int: "show_number (of_int n) = show_int n"
  by (simp add: show_number_def)

lemma int_param_of_int: "int_param (of_int n) = Inr n"
  by (simp add: int_param_def)

section \<open>The credit ledger\<close>

lemma users_ledger_step_length: "length (users (ledger_step x s)) = length (users s)"
  by (cases x)
     (simp_all add: updateUserMessageCount_def addUserCredits_def removeUserCredits_def
        split: option.split)

lemma ledger_step_nonneg:
  assumes "adds_nothing_negative x" and "i < length (users s)"
    and "0 \<le> messagesRemaining (users s ! i)"
  shows "0 \<le> messagesRemaining (users (ledger_step x s) ! i)"
  using assms
  by (cases x)
     (simp_all add: updateUserMessageCount_def addUserCredits_def removeUserCredits_def
        split: option.split)

lemma ledger_run_length: "length (users (ledger_run xs s)) = length (users s)"
  by (induction xs arbitrary: s) (simp_all add: users_ledger_step_length)

text \<open>
  As long as no \<^verbatim>\<open>addUserCredits\<close> is given a negative amount, a balance that is not
  negative stays so through any sequence of \<^verbatim>\<open>updateUserMessageCount\<close>,
  \<^verbatim>\<open>removeUserCredits\<close> and \<^verbatim>\<open>addUserCredits\<close> calls: the first two floor at 0.
\<close>

lemma ledger_never_negative:
  assumes "list_all adds_nothing_negative xs"
    and "i < length (users s)"
    and "0 \<le> messagesRemaining (users s ! i)"
  shows "length (users (ledger_run xs s)) = length (users s) \<and>
         0 \<le> messagesRemaining (users (ledger_run xs s) ! i)"
  using assms
proof (induction xs arbitrary: s)
  case Nil
  then show ?case by simp
next
  case (Cons x xs)
  have "i < length (users (ledger_step x s))"
    using Cons.prems(2) by (simp add: users_ledger_step_length)
  moreover have "0 \<le> messagesRemaining (users (ledger_step x s) ! i)"
    using Cons.prems by (intro ledger_step_nonneg) simp_all
  ultimately show ?case
    using Cons.IH [of "ledger_step x s"] Cons.prems(1)
    by (simp add: users_ledger_step_length)
qed

lemma ledger_never_negative_example:
  "list_all adds_nothing_negative
     [Add_credits 1 2, Remove_credits 1 10, Debit 1000 1, Debit 1000 2] \<and>
   0 < length (users db0) \<and>
   0 \<le> messagesRemaining (users db0 ! 0) \<and>
   length (users (ledger_run [Add_credits 1 2, Remove_credits 1 10, Debit 1000 1, Debit 1000 2] db0)) = 2 \<and>
   0 \<le> messagesRemaining
         (users (ledger_run [Add_credits 1 2, Remove_credits 1 10, Debit 1000 1, Debit 1000 2] db0) ! 0) \<and>
   map messagesRemaining
     (users (ledger_run [Add_credits 1 2, Remove_credits 1 10, Debit 1000 1, Debit 1000 2] db0)) = [0, 4]"
proof -
  let ?ops = "[Add_credits 1 2, Remove_credits 1 10, Debit 1000 1, Debit 1000 2]"
  have h1: "list_all adds_nothing_negative ?ops" by simp
  have h2: "0 < length (users db0)" by (simp add: db0_def)
  have h3: "0 \<le> messagesRemaining (users db0 ! 0)" by (simp add: db0_def alice_def)
  have run: "map messagesRemaining (users (ledger_run ?ops db0)) = [0, 4]"
    by (simp add: example_defs storage_defs)
  show ?thesis
    using h1 h2 h3 run ledger_never_negative [OF h1 h2 h3]
    by (simp add: db0_def)
qed

text \<open>
  \<^verbatim>\<open>addUserCredits\<close> itself is a plain addition with no floor: adding \<open>-6\<close> to a
  balance of 5 leaves \<open>-1\<close>.
\<close>

lemma add_negative_credits:
  "map messagesRemaining (users db0) = [5, 5] \<and>
   map messagesRemaining (users (ledger_run [Add_credits 1 (- 6)] db0)) = [- 1, 5]"
  by (simp add: example_defs addUserCredits_def)

text \<open>
  Claim C6 says that \<^verbatim>\<open>messagesRemaining\<close> is never negative after any sequence of
  debits, removals and additions from a non-negative balance. POST /api/admin/add-credits
  validates \<^verbatim>\<open>credits\<close> as an integer \<open>\<ge> 1\<close>, but POST
  /api/admin/approve-credit-request has no \<^verbatim>\<open>validateRequest\<close> and hands
  \<^verbatim>\<open>credits\<close> to \<^verbatim>\<open>addUserCredits\<close> as it comes. An admin who approves \<open>-6\<close>
  credits for alice, whose balance is 5, gets 200 and leaves her balance at \<open>-1\<close>.
\<close>

theorem approve_credit_request_negative:
  "case approve_credit_request 1000 (Some 2)
          \<lparr> ab_messageId = 1, ab_userId = 1, ab_credits = - 6 \<rparr> db0 of
     (res, s') \<Rightarrow>
       res_status res = 200 \<and>
       map messagesRemaining (users db0) = [5, 5] \<and>
       map messagesRemaining (users s') = [- 1, 5] \<and>
       users s' = users (ledger_run [Add_credits 1 (- 6)] db0)"
  by (simp add: approve_credit_request_def example_defs storage_defs Let_def)

section \<open>POST /api/send-message\<close>

text \<open>
  Claim C3. An active user with \<^verbatim>\<open>messagesRemaining > 0\<close> sends a valid body to
  POST /api/send-message. The handler makes one gateway call. If the call reports
  success, the answer is 200, the user's row has one credit less and one message more
  sent, and one row with status "sent" (and type "custom") is appended to the messages
  table. If the call fails, the answer is 500 and neither the users table nor the
  messages table changes. So the debit and the "sent" row happen if and only if the
  gateway call reports success.
\<close>

theorem send_message_debits_iff_gateway_success:
  assumes auth: "deserializeUser s session = Some user"
    and valid: "sendMessageSchema body"
    and active: "isActive user"
    and credit: "0 < messagesRemaining user"
  shows "case send_message gw now session body s of (res, s') \<Rightarrow>
           gateway_log s' = gateway_log s @ [Custom_sms (sb_phone body) (sb_message body)] \<and>
           (if success (custom_result (gw (length (gateway_log s))
                                          (Custom_sms (sb_phone body) (sb_message body))))
            then res_status res = 200 \<and>
                 getUser s' (u_id user) =
                   Some (user\<lparr> messagesRemaining := messagesRemaining user - 1,
                               messagesSent := messagesSent user + 1,
                               lastActivity := now \<rparr>) \<and>
                 messages s' = messages s @
                   [\<lparr> m_id = messages_id_seq s, m_userId = u_id user,
                      m_phone = sb_phone body, m_message = sb_message body,
                      m_status = ''sent'', m_type = ''custom'', m_createdAt = now \<rparr>]
            else res_status res = 500 \<and> users s' = users s \<and> messages s' = messages s)"
proof -
  obtain uid where uid: "session = Some uid" "getUser s uid = Some user"
    using auth by (auto simp: deserializeUser_def split: option.splits)
  have id: "u_id user = uid" using uid(2) by (rule getUser_id)
  let ?s1 = "s\<lparr> gateway_log := gateway_log s @ [Custom_sms (sb_phone body) (sb_message body)] \<rparr>"
  have g: "getUser ?s1 uid = Some user" using uid(2) by simp
  have upd: "getUser (updateUserMessageCount now uid ?s1) uid =
           Some (user\<lparr> messagesRemaining := messagesRemaining user - 1,
                       messagesSent := messagesSent user + 1,
                       lastActivity := now \<rparr>)"
    using updateUserMessageCount_getUser [OF g, of now] credit by (simp add: max_def)
  have msgs: "messages (updateUserMessageCount now uid ?s1) = messages s"
    and seq: "messages_id_seq (updateUserMessageCount now uid ?s1) = messages_id_seq s"
    and log: "gateway_log (updateUserMessageCount now uid ?s1) = gateway_log ?s1"
    using g by (simp_all add: updateUserMessageCount_def)
  show ?thesis
    using auth valid active credit upd msgs seq log
    by (simp add: send_message_def sendCustomMessage_eq createMessage_def reply_def id
          getUser_def Let_def split: prod.splits)
qed

theorem send_message_debits_iff_gateway_success_witness:
  "deserializeUser db0 (Some 1) = Some alice \<and>
   sendMessageSchema \<lparr> sb_phone = ''5551234567'', sb_message = ''hello'' \<rparr> \<and>
   isActive alice \<and> 0 < messagesRemaining alice \<and>
   res_status (fst (send_message gw_ok 1000 (Some 1)
                      \<lparr> sb_phone = ''5551234567'', sb_message = ''hello'' \<rparr> db0)) = 200 \<and>
   map_option messagesRemaining
     (getUser (snd (send_message gw_ok 1000 (Some 1)
                      \<lparr> sb_phone = ''5551234567'', sb_message = ''hello'' \<rparr> db0)) 1) = Some 4 \<and>
   map m_status
     (messages (snd (send_message gw_ok 1000 (Some 1)
                      \<lparr> sb_phone = ''5551234567'', sb_message = ''hello'' \<rparr> db0))) = [''sent''] \<and>
   res_status (fst (send_message gw_down 1000 (Some 1)
                      \<lparr> sb_phone = ''5551234567'', sb_message = ''hello'' \<rparr> db0)) = 500 \<and>
   users (snd (send_message gw_down 1000 (Some 1)
                 \<lparr> sb_phone = ''5551234567'', sb_message = ''hello'' \<rparr> db0)) = users db0 \<and>
   messages (snd (send_message gw_down 1000 (Some 1)
                 \<lparr> sb_phone = ''5551234567'', sb_message = ''hello'' \<rparr> db0)) = []"
proof -
  let ?body = "\<lparr> sb_phone = ''5551234567'', sb_message = ''hello'' \<rparr>"
  have h1: "deserializeUser db0 (Some 1) = Some alice"
    by (simp add: example_defs storage_defs)
  have h2: "sendMessageSchema ?body"
    by (simp add: schema_defs)
  have h3: "isActive alice" and h4: "0 < messagesRemaining alice"
    by (simp_all add: alice_def)
  have m: "messages db0 = []" by (simp add: db0_def)
  have ok: "success (custom_result (gw_ok 0 (Custom_sms ''5551234567'' ''hello'')))"
    and down: "\<not> success (custom_result (gw_down 0 (Custom_sms ''5551234567'' ''hello'')))"
    and l: "gateway_log db0 = []" and i: "u_id alice = 1" and r: "messagesRemaining alice = 5"
    by (simp_all add: example_defs custom_result_def)
  show ?thesis
    using h1 h2 h3 h4
      send_message_debits_iff_gateway_success [OF h1 h2 h3 h4, where gw = gw_ok and now = 1000]
      send_message_debits_iff_gateway_success [OF h1 h2 h3 h4, where gw = gw_down and now = 1000]
    by (simp add: case_prod_beta m ok down l i r)
qed

section \<open>POST /api/bomber\<close>

text \<open>
  What a successful self-service bomber send with a whole number \<open>n\<close> as \<open>repeat\<close> does
  to the ledger, for every user, body and gateway: \<^verbatim>\<open>removeUserCredits\<close> takes \<open>n\<close>
  credits and \<^verbatim>\<open>updateUserMessageCount\<close>, called for the sent counter, takes one
  more, while the response reports \<^verbatim>\<open>user.messagesRemaining - repeat\<close>.
\<close>

lemma bomber_success_ledger:
  assumes auth: "deserializeUser s session = Some user"
    and valid: "bomberSchema body"
    and n: "bb_repeat body = of_int n"
    and enough: "n \<le> messagesRemaining user"
    and active: "isActive user"
    and unprotected: "\<not> isNumberProtected s (bb_phone body)"
    and ok: "success (bomber_result (gw (length (gateway_log s))
                                       (Bomber_api (bb_phone body) (bb_repeat body))))"
  shows "case bomber gw now session body s of (res, s') \<Rightarrow>
           res_status res = 200 \<and>
           res_body res =
             [(''message'', JString (''Successfully sent '' @ show_int n @ '' messages'')),
              (''messagesRemaining'', JNumber (messagesRemaining user - n))] \<and>
           getUser s' (u_id user) =
             Some (user\<lparr> messagesRemaining := max 0 (messagesRemaining user - n - 1),
                         messagesSent := messagesSent user + 1,
                         lastActivity := now \<rparr>)"
proof -
  obtain uid where uid: "session = Some uid" "getUser s uid = Some user"
    using auth by (auto simp: deserializeUser_def split: option.splits)
  have id: "u_id user = uid" using uid(2) by (rule getUser_id)
  let ?s1 = "s\<lparr> gateway_log := gateway_log s @ [Bomber_api (bb_phone body) (of_int n)] \<rparr>"
  let ?f = "\<lambda>u. if u_id u = uid
                 then u\<lparr> messagesRemaining := max 0 (messagesRemaining u - n) \<rparr>
                 else u"
  have s2: "removeUserCredits uid n ?s1 = ?s1\<lparr> users := map ?f (users ?s1) \<rparr>"
    by (simp add: removeUserCredits_def)
  have "getUser (?s1\<lparr> users := map ?f (users ?s1) \<rparr>) uid = map_option ?f (getUser ?s1 uid)"
    by (rule getUser_map) simp
  then have g2: "getUser (removeUserCredits uid n ?s1) uid =
                   Some (user\<lparr> messagesRemaining := messagesRemaining user - n \<rparr>)"
    using uid(2) id enough unfolding s2 by (simp add: max_def)
  have g3: "getUser (updateUserMessageCount now uid (removeUserCredits uid n ?s1)) uid =
              Some (user\<lparr> messagesRemaining := max 0 (messagesRemaining user - n - 1),
                          messagesSent := messagesSent user + 1,
                          lastActivity := now \<rparr>)"
    using updateUserMessageCount_getUser [OF g2, of now] by simp
  have enough': "\<not> rat_of_int (messagesRemaining user) < rat_of_int n"
    using enough by simp
  show ?thesis
    using auth valid enough' active unprotected ok g3
    by (simp add: bomber_def sendBomberMessage_eq createMessage_def id getUser_def Let_def n
          int_param_of_int show_number_of_int split: prod.splits)
qed

text \<open>
  Claim C1 says that a successful self-service bomber send lowers
  \<^verbatim>\<open>messagesRemaining\<close> by exactly \<open>repeat\<close> and raises \<^verbatim>\<open>messagesSent\<close>
  by one. The code at a user with 5 credits and \<open>repeat = 2\<close>: the response is 200 and
  reports 3 credits remaining, \<^verbatim>\<open>messagesSent\<close> goes from 0 to 1, but the stored
  balance is 2, one less than the claim and the response say.
\<close>

theorem bomber_debits_one_more_than_repeat:
  "case bomber gw_ok 1000 (Some 1)
          \<lparr> bb_phone = ''5551234567'', bb_repeat = 2, bb_message = None \<rparr> db0 of
     (res, s') \<Rightarrow>
       res_status res = 200 \<and>
       res_body res =
         [(''message'', JString ''Successfully sent 2 messages''),
          (''messagesRemaining'', JNumber 3)] \<and>
       map_option messagesRemaining (getUser db0 1) = Some 5 \<and>
       map_option messagesRemaining (getUser s' 1) = Some 2 \<and>
       map_option messagesSent (getUser s' 1) = Some 1"
  by (simp add: bomber_def example_defs storage_defs gateway_defs schema_defs Let_def
        int_param_def show_number_def show_int_def show_nat.simps)

text \<open>
  Claim C8. An authenticated user sends a valid body to POST /api/bomber with
  \<open>repeat\<close> greater than the user's \<^verbatim>\<open>messagesRemaining\<close>. The answer is 400 "You
  don't have enough credits" and the state is the one before the request: no gateway
  call is logged, and the users and messages tables are unchanged.
\<close>

theorem bomber_insufficient_credits:
  assumes "deserializeUser s session = Some user"
    and "bomberSchema body"
    and "of_int (messagesRemaining user) < bb_repeat body"
  shows "bomber gw now session body s = (reply 400 ''You don't have enough credits'', s)"
  using assms by (simp add: bomber_def)

theorem bomber_insufficient_credits_witness:
  "deserializeUser db0 (Some 1) = Some alice \<and>
   bomberSchema \<lparr> bb_phone = ''5551234567'', bb_repeat = 6, bb_message = None \<rparr> \<and>
   rat_of_int (messagesRemaining alice) < 6 \<and>
   bomber gw_ok 1000 (Some 1)
     \<lparr> bb_phone = ''5551234567'', bb_repeat = 6, bb_message = None \<rparr> db0 =
     (reply 400 ''You don't have enough credits'', db0)"
proof -
  let ?body = "\<lparr> bb_phone = ''5551234567'', bb_repeat = 6, bb_message = None \<rparr>"
  have h1: "deserializeUser db0 (Some 1) = Some alice"
    by (simp add: example_defs storage_defs)
  have h2: "bomberSchema ?body" by (simp add: schema_defs)
  have h3: "of_int (messagesRemaining alice) < bb_repeat ?body" by (simp add: alice_def)
  show ?thesis
    using h1 h2 h3 bomber_insufficient_credits [OF h1 h2 h3, where gw = gw_ok and now = 1000]
    by simp
qed
section \<open>Protected numbers\<close>

text \<open>
  Claim C4, as amended. The phone of the body is in the protected-number registry. Then
  neither POST /api/admin/bomber nor POST /api/bomber changes the state: no gateway call
  is logged and no credit is taken, whatever the caller's balance. An admin with a valid
  body gets 403 from the admin route. An authenticated user with a valid body gets 403
  from the self-service route when \<^verbatim>\<open>messagesRemaining >= repeat\<close>, and 400 when
  \<^verbatim>\<open>messagesRemaining < repeat\<close>, because the credit check comes first. (A caller
  who is not an admin gets 403 from the admin route, one who is not logged in 401 from
  the self-service route, and an invalid body 400.)
\<close>

theorem protected_number_never_bombed:
  assumes "isNumberProtected s (bb_phone body)"
  shows "snd (admin_bomber gw sa body s) = s \<and>
         snd (bomber gw now su body s) = s \<and>
         res_status (fst (admin_bomber gw sa body s)) =
           (if \<not> isAdmin_guard s sa then 403 else if \<not> bomberSchema body then 400 else 403) \<and>
         res_status (fst (bomber gw now su body s)) =
           (case deserializeUser s su of
              None \<Rightarrow> 401
            | Some user \<Rightarrow>
                if \<not> bomberSchema body then 400
                else if of_int (messagesRemaining user) < bb_repeat body then 400
                else 403)"
  using assms
  by (simp add: admin_bomber_def bomber_def reply_def forbidden_def unauthorized_def
        validation_error_def Let_def split: option.splits)

theorem protected_number_never_bombed_witness:
  "isNumberProtected db_protected ''5550000009'' \<and>
   snd (admin_bomber gw_ok (Some 2)
          \<lparr> bb_phone = ''5550000009'', bb_repeat = 2, bb_message = None \<rparr> db_protected) = db_protected \<and>
   snd (bomber gw_ok 1000 (Some 1)
          \<lparr> bb_phone = ''5550000009'', bb_repeat = 2, bb_message = None \<rparr> db_protected) = db_protected \<and>
   res_status (fst (admin_bomber gw_ok (Some 2)
          \<lparr> bb_phone = ''5550000009'', bb_repeat = 2, bb_message = None \<rparr> db_protected)) = 403 \<and>
   res_status (fst (bomber gw_ok 1000 (Some 1)
          \<lparr> bb_phone = ''5550000009'', bb_repeat = 2, bb_message = None \<rparr> db_protected)) = 403"
proof -
  have h: "isNumberProtected db_protected
             (bb_phone \<lparr> bb_phone = ''5550000009'', bb_repeat = 2, bb_message = None \<rparr>)"
    by (simp add: example_defs isNumberProtected_def)
  show ?thesis
    using h protected_number_never_bombed
        [OF h, where gw = gw_ok and sa = "Some 2" and now = 1000 and su = "Some 1"]
    by (simp add: example_defs storage_defs schema_defs)
qed

text \<open>
  The self-service route does not always answer 403 for a protected number: a user with
  5 credits who asks for 6 messages to a protected number gets 400.
\<close>

theorem protected_bomber_400_counterexample:
  "isNumberProtected db_protected ''5550000009'' \<and>
   fst (bomber gw_ok 1000 (Some 1)
          \<lparr> bb_phone = ''5550000009'', bb_repeat = 6, bb_message = None \<rparr> db_protected) =
     reply 400 ''You don't have enough credits''"
  by (simp add: bomber_def example_defs storage_defs schema_defs Let_def)

text \<open>
  Claim C10. POST /api/admin/custom-message does not look at the registry: when an admin
  sends a valid body whose phone is protected, the handler still makes its gateway call
  to that phone, changes nothing else, and answers 200 exactly when the call reports
  success.
\<close>

theorem admin_custom_message_ignores_protection:
  assumes "isAdmin_guard s session"
    and "customMessageSchema body"
    and "isNumberProtected s (sb_phone body)"
  shows "case admin_custom_message gw session body s of (res, s') \<Rightarrow>
           s' = s\<lparr> gateway_log := gateway_log s @ [Custom_sms (sb_phone body) (sb_message body)] \<rparr> \<and>
           (res_status res = 200) =
             success (custom_result (gw (length (gateway_log s))
                                        (Custom_sms (sb_phone body) (sb_message body))))"
  using assms
  by (simp add: admin_custom_message_def sendCustomMessage_eq reply_def Let_def)

theorem admin_custom_message_ignores_protection_witness:
  "isAdmin_guard db_protected (Some 2) \<and>
   customMessageSchema \<lparr> sb_phone = ''5550000009'', sb_message = ''hello'' \<rparr> \<and>
   isNumberProtected db_protected ''5550000009'' \<and>
   res_status (fst (admin_custom_message gw_ok (Some 2)
                      \<lparr> sb_phone = ''5550000009'', sb_message = ''hello'' \<rparr> db_protected)) = 200 \<and>
   gateway_log (snd (admin_custom_message gw_ok (Some 2)
                      \<lparr> sb_phone = ''5550000009'', sb_message = ''hello'' \<rparr> db_protected)) =
     [Custom_sms ''5550000009'' ''hello'']"
proof -
  let ?body = "\<lparr> sb_phone = ''5550000009'', sb_message = ''hello'' \<rparr>"
  have h1: "isAdmin_guard db_protected (Some 2)"
    by (simp add: example_defs storage_defs)
  have h2: "customMessageSchema ?body" by (simp add: schema_defs)
  have h3: "isNumberProtected db_protected (sb_phone ?body)"
    by (simp add: example_defs storage_defs)
  have ok: "success (custom_result (gw_ok 0 (Custom_sms ''5550000009'' ''hello'')))"
    and l: "gateway_log db_protected = []"
    by (simp_all add: example_defs custom_result_def)
  show ?thesis
    using h1 h2 h3 admin_custom_message_ignores_protection [OF h1 h2 h3, where gw = gw_ok]
    by (simp add: case_prod_beta ok l)
qed
section \<open>POST /api/admin/bomber with a message\<close>

lemma nat_ceiling_diff_Suc:
  "of_int i < repeat \<Longrightarrow> nat (\<lceil>repeat\<rceil> - i) = Suc (nat (\<lceil>repeat\<rceil> - (i + 1)))"
  for repeat :: rat
  by (simp add: less_ceiling_iff [symmetric])

lemma nat_ceiling_diff_0:
  "\<not> of_int i < repeat \<Longrightarrow> nat (\<lceil>repeat\<rceil> - i) = 0" for repeat :: rat
  by (simp add: less_ceiling_iff [symmetric])

text \<open>
  The loop run from any point: it makes the remaining calls, as many as there are
  integers from \<open>i\<close> below \<open>repeat\<close>, one after the other, appends every result, and adds
  the number of successful ones to the counter.
\<close>

lemma admin_bomber_loop_run:
  "admin_bomber_loop gw phone msg repeat i results succ s =
     (let rs = map (\<lambda>k. custom_result (gw (length (gateway_log s) + k) (Custom_sms phone msg)))
                   [0..<nat (\<lceil>repeat\<rceil> - i)]
      in (results @ rs,
          succ + int (length (filter success rs)),
          s\<lparr> gateway_log :=
               gateway_log s @ replicate (nat (\<lceil>repeat\<rceil> - i)) (Custom_sms phone msg) \<rparr>))"
proof (induction gw phone msg repeat i results succ s rule: admin_bomber_loop.induct)
  case (1 gw phone msg repeat i results succ s)
  show ?case
  proof (cases "of_int i < repeat")
    case False
    then show ?thesis
      by (subst admin_bomber_loop.simps) (simp add: nat_ceiling_diff_0)
  next
    case True
    let ?req = "Custom_sms phone msg"
    let ?r = "custom_result (gw (length (gateway_log s)) ?req)"
    let ?s1 = "s\<lparr> gateway_log := gateway_log s @ [?req] \<rparr>"
    define m where "m = nat (\<lceil>repeat\<rceil> - (i + 1))"
    have m: "nat (\<lceil>repeat\<rceil> - i) = Suc m"
      unfolding m_def using True by (rule nat_ceiling_diff_Suc)
    have call: "sendCustomMessage gw phone msg s = (?r, ?s1)"
      by (rule sendCustomMessage_eq)
    have step: "admin_bomber_loop gw phone msg repeat i results succ s =
                admin_bomber_loop gw phone msg repeat (i + 1) (results @ [?r])
                  (if success ?r then succ + 1 else succ) ?s1"
      by (subst admin_bomber_loop.simps) (simp only: True call if_True Let_def prod.case)
    have IH: "admin_bomber_loop gw phone msg repeat (i + 1) (results @ [?r])
                  (if success ?r then succ + 1 else succ) ?s1 =
              (let rs = map (\<lambda>k. custom_result (gw (length (gateway_log ?s1) + k) ?req)) [0..<m]
               in ((results @ [?r]) @ rs,
                   (if success ?r then succ + 1 else succ) + int (length (filter success rs)),
                   ?s1\<lparr> gateway_log := gateway_log ?s1 @ replicate m ?req \<rparr>))"
      unfolding m_def
      by (rule "1.IH" [OF True call [symmetric] refl])
    have upt: "[0..<Suc m] = 0 # map Suc [0..<m]"
      by (simp add: upt_conv_Cons map_Suc_upt del: upt_Suc)
    show ?thesis
      unfolding step IH m upt
      by (simp add: Let_def o_def)
  qed
qed

text \<open>
  An admin sends a valid body with a message (a non-empty string, which is what
  \<^verbatim>\<open>if (message)\<close> asks for) to a number that is not protected. The handler makes
  \<open>\<lceil>repeat\<rceil>\<close> \<^verbatim>\<open>sendCustomMessage\<close> calls one after the other, whether or not some of
  them fail, and answers 200 with "Sent s of repeat messages successfully", where \<open>s\<close> is
  the number of those calls that reported success.
\<close>

lemma admin_bomber_calls:
  assumes admin: "isAdmin_guard s session"
    and valid: "bomberSchema body"
    and msg: "bb_message body = Some msg" "msg \<noteq> []"
    and unprotected: "\<not> isNumberProtected s (bb_phone body)"
  shows "case admin_bomber gw session body s of (res, s') \<Rightarrow>
           (let calls = nat \<lceil>bb_repeat body\<rceil>;
                rs = map (\<lambda>k. custom_result (gw (length (gateway_log s) + k)
                                                   (Custom_sms (bb_phone body) msg)))
                         [0..<calls]
            in gateway_log s' =
                 gateway_log s @ replicate calls (Custom_sms (bb_phone body) msg) \<and>
               res_status res = 200 \<and>
               res_body res =
                 [(''message'',
                   JString (''Sent '' @ show_int (int (length (filter success rs))) @ '' of ''
                            @ show_number (bb_repeat body) @ '' messages successfully'')),
                  (''results'', JArray (map json_result rs))])"
proof -
  have t: "truthy (bb_message body)"
    using msg by (simp add: truthy_def)
  show ?thesis
    using admin valid unprotected t
    by (simp add: admin_bomber_def admin_bomber_loop_run Let_def msg(1))
qed

text \<open>When \<open>repeat\<close> is a whole number \<open>n\<close>, these are exactly \<open>n\<close> calls and "s of n".\<close>

lemma admin_bomber_integer_repeat:
  assumes admin: "isAdmin_guard s session"
    and valid: "bomberSchema body"
    and msg: "bb_message body = Some msg" "msg \<noteq> []"
    and unprotected: "\<not> isNumberProtected s (bb_phone body)"
    and n: "bb_repeat body = of_int n"
  shows "case admin_bomber gw session body s of (res, s') \<Rightarrow>
           (let rs = map (\<lambda>k. custom_result (gw (length (gateway_log s) + k)
                                                   (Custom_sms (bb_phone body) msg)))
                         [0..<nat n]
            in 1 \<le> n \<and>
               gateway_log s' =
                 gateway_log s @ replicate (nat n) (Custom_sms (bb_phone body) msg) \<and>
               res_status res = 200 \<and>
               res_body res =
                 [(''message'',
                   JString (''Sent '' @ show_int (int (length (filter success rs))) @ '' of ''
                            @ show_int n @ '' messages successfully'')),
                  (''results'', JArray (map json_result rs))])"
proof -
  have "1 \<le> n" using valid n by (simp add: bomberSchema_def)
  moreover have "show_number (bb_repeat body) = show_int n" "nat \<lceil>bb_repeat body\<rceil> = nat n"
    by (simp_all add: n show_number_def)
  ultimately show ?thesis
    using admin_bomber_calls [OF admin valid msg unprotected, of gw]
    by (simp add: Let_def case_prod_beta)
qed

text \<open>
  The scenario of the specification: \<open>repeat = 3\<close>, the second call fails, the answer is
  "Sent 2 of 3 messages successfully".
\<close>

lemma admin_bomber_integer_repeat_example:
  "res_body (fst (admin_bomber gw_second_fails (Some 2)
       \<lparr> bb_phone = ''5551234567'', bb_repeat = 3, bb_message = Some ''hi'' \<rparr> db0)) =
     [(''message'', JString ''Sent 2 of 3 messages successfully''),
      (''results'',
       JArray [JObject [(''success'', JBool True), (''messageId'', JUndefined)],
               JObject [(''success'', JBool False),
                        (''error'', JString ''Failed to send message'')],
               JObject [(''success'', JBool True), (''messageId'', JUndefined)]])] \<and>
   gateway_log (snd (admin_bomber gw_second_fails (Some 2)
       \<lparr> bb_phone = ''5551234567'', bb_repeat = 3, bb_message = Some ''hi'' \<rparr> db0)) =
     [Custom_sms ''5551234567'' ''hi'', Custom_sms ''5551234567'' ''hi'',
      Custom_sms ''5551234567'' ''hi'']"
proof -
  let ?body = "\<lparr> bb_phone = ''5551234567'', bb_repeat = 3, bb_message = Some ''hi'' \<rparr>"
  have h1: "isAdmin_guard db0 (Some 2)"
    by (simp add: example_defs storage_defs)
  have h2: "bomberSchema ?body" by (simp add: schema_defs)
  have h3: "bb_message ?body = Some ''hi''" and h4: "''hi'' \<noteq> []" by simp_all
  have h5: "\<not> isNumberProtected db0 (bb_phone ?body)"
    by (simp add: example_defs storage_defs)
  have h6: "bb_repeat ?body = of_int 3" by simp
  have l: "gateway_log db0 = []" by (simp add: db0_def)
  have u: "[0..<3] = [0, 1, 2::nat]" by (simp add: upt_rec)
  have n: "replicate 3 x = [x, x, x]" for x :: gw_request by (simp add: numeral_3_eq_3)
  show ?thesis
    using admin_bomber_integer_repeat [OF h1 h2 h3 h4 h5 h6, where gw = gw_second_fails]
    by (simp add: case_prod_beta Let_def l n u gw_second_fails_def custom_result_def
          json_result_def json_opt_def show_int_def show_nat.simps)
qed

text \<open>
  Claim C5 says that an admin bomber request with a message and a repeat count
  \<open>n \<ge> 1\<close> makes exactly \<open>n\<close> calls and answers "Sent s of n messages successfully".
  \<^verbatim>\<open>bomberSchema\<close> checks \<^verbatim>\<open>repeat\<close> with \<^verbatim>\<open>z.number().min(1)\<close> and, unlike the
  schemas for \<^verbatim>\<open>credits\<close>, without \<^verbatim>\<open>.int()\<close>: the body with \<open>repeat = 2.5\<close> is
  valid, the loop runs for \<open>i = 0, 1, 2\<close>, and the handler makes three calls and answers
  "Sent 3 of 2.5 messages successfully".
\<close>

theorem admin_bomber_fraction_rounds_up:
  "bomberSchema \<lparr> bb_phone = ''5551234567'', bb_repeat = 5 / 2, bb_message = Some ''hi'' \<rparr> \<and>
   admin_bomber gw_ok (Some 2)
     \<lparr> bb_phone = ''5551234567'', bb_repeat = 5 / 2, bb_message = Some ''hi'' \<rparr> db0 =
     (\<lparr> res_status = 200,
        res_body =
          [(''message'', JString ''Sent 3 of 2.5 messages successfully''),
           (''results'',
            JArray [JObject [(''success'', JBool True), (''messageId'', JUndefined)],
                    JObject [(''success'', JBool True), (''messageId'', JUndefined)],
                    JObject [(''success'', JBool True), (''messageId'', JUndefined)]])] \<rparr>,
      db0\<lparr> gateway_log :=
             [Custom_sms ''5551234567'' ''hi'', Custom_sms ''5551234567'' ''hi'',
              Custom_sms ''5551234567'' ''hi''] \<rparr>)"
proof -
  have u: "[0..<3] = [0, 1, 2::nat]" by (simp add: upt_rec)
  have n: "replicate 3 x = [x, x, x]" for x :: gw_request by (simp add: numeral_3_eq_3)
  have c: "\<lceil>5 / 2 :: rat\<rceil> = 3" by (rule ceiling_unique) simp_all
  have f: "\<lfloor>5 / 2 :: rat\<rfloor> = 2" by (rule floor_unique) simp_all
  have sh: "show_number (5 / 2) = ''2.5''"
    by (simp add: show_number_def show_int_def show_nat.simps frac_digits_numeral f)
  show ?thesis
    by (simp add: admin_bomber_def admin_bomber_loop_run schema_defs truthy_def example_defs
          storage_defs custom_result_def json_result_def json_opt_def Let_def c u n sh
          show_int_def show_nat.simps)
qed

section \<open>POST /api/request-credits\<close>

text \<open>
  Claim C2 says that the message row of a credit request has type "credit_request" and
  status "pending". The handler passes \<^verbatim>\<open>status: "pending"\<close>, but
  \<^verbatim>\<open>createMessage\<close> writes "sent" over it: for a valid request of user alice the one
  row created has type "credit_request" and status "sent".
\<close>

theorem request_credits_row_is_sent:
  "case request_credits 1000 (Some 1)
          \<lparr> cb_reason = ''need more credits'', cb_credits = 10 \<rparr> db0 of
     (res, s') \<Rightarrow>
       res_status res = 200 \<and>
       messages s' =
         [\<lparr> m_id = 1, m_userId = 1, m_phone = ''SYSTEM'',
            m_message = ''CREDIT REQUEST - User: alice, Credits: 10, Reason: need more credits'',
            m_status = ''sent'', m_type = ''credit_request'', m_createdAt = 1000 \<rparr>]"
  by (simp add: request_credits_def example_defs storage_defs schema_defs Let_def
        show_int_def show_nat.simps)
section \<open>Registration\<close>

text \<open>
  Claim C7. A valid body is sent to POST /api/verify-otp. If the otps table has no row
  for the phone the answer is 400. Otherwise the handler decides on a most recently
  created row \<open>r\<close> of that phone (a row of the table, of that phone, such that no row of
  that phone has a later createdAt; the query picks one when several are tied). If \<open>r\<close>
  is already verified, or the current time is after its \<^verbatim>\<open>expiresAt\<close> (whatever the
  submitted code), or the submitted code differs from the stored one, the answer is
  400; in each of these cases nothing changes. Only otherwise the answer is 200, and the
  only change is that \<open>r\<close> (the rows with its id) is marked verified.
\<close>

theorem verify_otp_outcome:
  assumes valid: "validateOtpSchema body"
  shows "case verify_otp tie now body s of (res, s') \<Rightarrow>
           if ob_phone body \<notin> set (map o_phone (otps s))
           then res_status res = 400 \<and> s' = s
           else \<exists>r \<in> set (otps s).
                  o_phone r = ob_phone body \<and>
                  (\<forall>r' \<in> set (otps s).
                     o_phone r' = ob_phone body \<longrightarrow> o_createdAt r' \<le> o_createdAt r) \<and>
                  (if verified r \<or> expiresAt r < now \<or> o_code r \<noteq> ob_code body
                   then res_status res = 400 \<and> s' = s
                   else res_status res = 200 \<and>
                        s' = s\<lparr> otps := map (\<lambda>x. if o_id x = o_id r
                                                   then x\<lparr> verified := True \<rparr> else x)
                                              (otps s) \<rparr> \<and>
                        r\<lparr> verified := True \<rparr> \<in> set (otps s'))"
proof (cases "getLatestOtp tie s (ob_phone body)")
  case None
  then have "ob_phone body \<notin> set (map o_phone (otps s))"
    by (simp add: getLatestOtp_None)
  then show ?thesis
    using valid None by (simp add: verify_otp_def reply_def)
next
  case (Some r)
  note props = getLatestOtp_Some [OF Some]
  have some: "\<not> ob_phone body \<notin> set (map o_phone (otps s))"
    using Some getLatestOtp_None [of tie s "ob_phone body"] by simp
  have marked: "r\<lparr> verified := True \<rparr> \<in>
                  set (map (\<lambda>x. if o_id x = o_id r then x\<lparr> verified := True \<rparr> else x) (otps s))"
    using props(1) by force
  have "if verified r \<or> expiresAt r < now \<or> o_code r \<noteq> ob_code body
        then res_status (fst (verify_otp tie now body s)) = 400 \<and>
             snd (verify_otp tie now body s) = s
        else res_status (fst (verify_otp tie now body s)) = 200 \<and>
             snd (verify_otp tie now body s) =
               s\<lparr> otps := map (\<lambda>x. if o_id x = o_id r then x\<lparr> verified := True \<rparr> else x)
                                (otps s) \<rparr> \<and>
             r\<lparr> verified := True \<rparr> \<in> set (otps (snd (verify_otp tie now body s)))"
    using valid Some marked by (simp add: verify_otp_def reply_def verifyOtp_def)
  then show ?thesis
    using props some unfolding case_prod_beta if_not_P [OF some]
    by (intro bexI [of _ r]) simp_all
qed

theorem verify_otp_outcome_witness:
  "validateOtpSchema \<lparr> ob_phone = ''5550000003'', ob_code = ''123456'' \<rparr> \<and>
   verify_otp 0 900000 \<lparr> ob_phone = ''5550000003'', ob_code = ''123456'' \<rparr> db_otp_open =
     (reply 200 ''Verification successful'', db_otp_verified) \<and>
   verify_otp 0 900001 \<lparr> ob_phone = ''5550000003'', ob_code = ''123456'' \<rparr> db_otp_open =
     (reply 400 ''Verification code expired'', db_otp_open) \<and>
   verify_otp 0 900000 \<lparr> ob_phone = ''5550000003'', ob_code = ''654321'' \<rparr> db_otp_open =
     (reply 400 ''Invalid verification code'', db_otp_open) \<and>
   verify_otp 0 900000 \<lparr> ob_phone = ''5550000003'', ob_code = ''123456'' \<rparr> db_otp_verified =
     (reply 400 ''Code already verified'', db_otp_verified) \<and>
   verify_otp 0 900000 \<lparr> ob_phone = ''5550000003'', ob_code = ''123456'' \<rparr> db0 =
     (reply 400 ''No verification code found'', db0)"
proof -
  let ?body = "\<lparr> ob_phone = ''5550000003'', ob_code = ''123456'' \<rparr>"
  have h: "validateOtpSchema ?body" by (simp add: schema_defs)
  have ok: "verify_otp 0 900000 ?body db_otp_open =
              (reply 200 ''Verification successful'', db_otp_verified)"
    and late: "verify_otp 0 900001 ?body db_otp_open =
              (reply 400 ''Verification code expired'', db_otp_open)"
    and wrong: "verify_otp 0 900000 \<lparr> ob_phone = ''5550000003'', ob_code = ''654321'' \<rparr>
                  db_otp_open = (reply 400 ''Invalid verification code'', db_otp_open)"
    and again: "verify_otp 0 900000 ?body db_otp_verified =
              (reply 400 ''Code already verified'', db_otp_verified)"
    and none: "verify_otp 0 900000 ?body db0 = (reply 400 ''No verification code found'', db0)"
    by (simp_all add: verify_otp_def schema_defs example_defs storage_defs Let_def)
  show ?thesis
    using h verify_otp_outcome [OF h, where tie = 0 and now = 900000 and s = db_otp_open]
      ok late wrong again none
    by simp
qed

text \<open>
  Claim C9. POST /api/complete-registration answers 400 "Phone not verified", and
  changes nothing, when the otps table has no row for the submitted phone, or when the
  most recently created row \<open>r\<close> of that phone (as above) is not verified. When \<open>r\<close> is
  verified the handler goes on to create the account, with no look at \<^verbatim>\<open>expiresAt\<close>
  or the clock: the answer is 201, the new user is logged in and its row is appended
  with 5 credits; unless the username is taken, when the insert fails and the answer is
  500. So the answer is 400 "Phone not verified" exactly in the first two cases.
\<close>

theorem complete_registration_needs_verified_only:
  "case complete_registration hash tie now session body s of (res, session', s') \<Rightarrow>
     if iu_phone body \<notin> set (map o_phone (otps s))
     then res = reply 400 ''Phone not verified'' \<and> session' = session \<and> s' = s
     else \<exists>r \<in> set (otps s).
            o_phone r = iu_phone body \<and>
            (\<forall>r' \<in> set (otps s).
               o_phone r' = iu_phone body \<longrightarrow> o_createdAt r' \<le> o_createdAt r) \<and>
            (if \<not> verified r
             then res = reply 400 ''Phone not verified'' \<and> session' = session \<and> s' = s
             else if iu_username body \<in> set (map username (users s))
             then res_status res = 500 \<and> session' = session \<and> users s' = users s
             else res_status res = 201 \<and> session' = Some (users_id_seq s) \<and>
                  users s' = users s @
                    [\<lparr> u_id = users_id_seq s, username = iu_username body,
                       password = hash (iu_password body), fullName = iu_fullName body,
                       u_phone = iu_phone body, messagesRemaining = 5, messagesSent = 0,
                       lastActivity = now,
                       isAdmin = (case iu_isAdmin body of None \<Rightarrow> False | Some b \<Rightarrow> b),
                       isActive = True, u_createdAt = now \<rparr>])"
proof (cases "getLatestOtp tie s (iu_phone body)")
  case None
  then have "iu_phone body \<notin> set (map o_phone (otps s))"
    by (simp add: getLatestOtp_None)
  then show ?thesis
    using None by (simp add: complete_registration_def insertUserSchema_def)
next
  case (Some r)
  note props = getLatestOtp_Some [OF Some]
  have some: "\<not> iu_phone body \<notin> set (map o_phone (otps s))"
    using Some getLatestOtp_None [of tie s "iu_phone body"] by simp
  let ?out = "complete_registration hash tie now session body s"
  have "if \<not> verified r
        then fst ?out = reply 400 ''Phone not verified'' \<and> fst (snd ?out) = session \<and>
             snd (snd ?out) = s
        else if iu_username body \<in> set (map username (users s))
        then res_status (fst ?out) = 500 \<and> fst (snd ?out) = session \<and>
             users (snd (snd ?out)) = users s
        else res_status (fst ?out) = 201 \<and> fst (snd ?out) = Some (users_id_seq s) \<and>
             users (snd (snd ?out)) = users s @
               [\<lparr> u_id = users_id_seq s, username = iu_username body,
                  password = hash (iu_password body), fullName = iu_fullName body,
                  u_phone = iu_phone body, messagesRemaining = 5, messagesSent = 0,
                  lastActivity = now,
                  isAdmin = (case iu_isAdmin body of None \<Rightarrow> False | Some b \<Rightarrow> b),
                  isActive = True, u_createdAt = now \<rparr>]"
    using Some
    by (simp add: complete_registration_def insertUserSchema_def createUser_def
          error_handler_def reply_def Let_def)
  then show ?thesis
    using props some unfolding case_prod_beta if_not_P [OF some]
    by (intro bexI [of _ r]) simp_all
qed

theorem complete_registration_needs_verified_only_witness:
  "expiresAt (otp_open\<lparr> verified := True \<rparr>) < 5000000 \<and>
   res_status (fst (complete_registration (\<lambda>p. p @ ''.salt'') 0 5000000 None
       \<lparr> iu_username = ''carol'', iu_password = ''secret1'', iu_fullName = ''Carol C'',
         iu_phone = ''5550000003'', iu_isAdmin = None \<rparr> db_otp_verified)) = 201 \<and>
   fst (complete_registration (\<lambda>p. p @ ''.salt'') 0 5000000 None
       \<lparr> iu_username = ''carol'', iu_password = ''secret1'', iu_fullName = ''Carol C'',
         iu_phone = ''5550000003'', iu_isAdmin = None \<rparr> db_otp_open) =
     reply 400 ''Phone not verified'' \<and>
   fst (complete_registration (\<lambda>p. p @ ''.salt'') 0 5000000 None
       \<lparr> iu_username = ''carol'', iu_password = ''secret1'', iu_fullName = ''Carol C'',
         iu_phone = ''5550000003'', iu_isAdmin = None \<rparr> db0) =
     reply 400 ''Phone not verified'' \<and>
   res_status (fst (complete_registration (\<lambda>p. p @ ''.salt'') 0 5000000 None
       \<lparr> iu_username = ''carol'', iu_password = ''secret1'', iu_fullName = ''Carol C'',
         iu_phone = ''5550000003'', iu_isAdmin = None \<rparr> db_otp_tie)) = 201 \<and>
   fst (complete_registration (\<lambda>p. p @ ''.salt'') 1 5000000 None
       \<lparr> iu_username = ''carol'', iu_password = ''secret1'', iu_fullName = ''Carol C'',
         iu_phone = ''5550000003'', iu_isAdmin = None \<rparr> db_otp_tie) =
     reply 400 ''Phone not verified''"
proof -
  let ?body = "\<lparr> iu_username = ''carol'', iu_password = ''secret1'', iu_fullName = ''Carol C'',
         iu_phone = ''5550000003'', iu_isAdmin = None \<rparr>"
  let ?run = "\<lambda>tie. complete_registration (\<lambda>p. p @ ''.salt'') tie 5000000 None ?body"
  have e: "expiresAt (otp_open\<lparr> verified := True \<rparr>) < 5000000"
    by (simp add: otp_open_def)
  have a: "res_status (fst (?run 0 db_otp_verified)) = 201"
    and b: "fst (?run 0 db_otp_open) = reply 400 ''Phone not verified''"
    and c: "fst (?run 0 db0) = reply 400 ''Phone not verified''"
    and d: "res_status (fst (?run 0 db_otp_tie)) = 201"
    and f: "fst (?run 1 db_otp_tie) = reply 400 ''Phone not verified''"
    by (simp_all add: complete_registration_def createUser_def schema_defs example_defs
          storage_defs Let_def)
  show ?thesis
    using complete_registration_needs_verified_only
        [where hash = "\<lambda>p. p @ ''.salt''" and tie = 0 and now = 5000000 and session = None
           and body = ?body and s = db_otp_verified]
      e a b c d f
    by simp
qed

end
